theory Spec2Isabelle
  imports Main
begin

section \<open>JavaScript values used by the workout tracker\<close>

text \<open>
  The application is a single React component, \<^verbatim>\<open>App\<close> in \<^verbatim>\<open>src/App.js\<close>. Its handlers
  are modelled as functions on a record of the component's \<^verbatim>\<open>useState\<close> variables. A
  handler that can throw returns \<open>js_error + 'a\<close>, with \<open>Inl\<close> for the exception.
  The exceptions the handlers can meet are the runtime's own: \<^verbatim>\<open>TypeError\<close> (a property
  read or write on \<^verbatim>\<open>undefined\<close> or \<^verbatim>\<open>null\<close>) and \<^verbatim>\<open>RangeError\<close> (an invalid array
  length). The code defines and throws no error of its own.
\<close>

datatype js_error = TypeError | RangeError

text \<open>
  A template field typed by the user or stored in Firestore: \<^verbatim>\<open>undefined\<close>, an
  integer-valued Number in the safe-integer range, or a string (the value of an
  \<^verbatim>\<open><input>\<close> element). Strings are lists of code units below 256.
\<close>

datatype js_value = JUndefined | JNum int | JStr string

subsection \<open>Decimal numerals\<close>

text \<open>The character of a digit \<open>d < 10\<close>; it is used on such \<open>d\<close> only.\<close>

definition digit_char :: "nat \<Rightarrow> char" where
  "digit_char d = ''0123456789'' ! d"

fun show_nat :: "nat \<Rightarrow> string" where
  "show_nat n =
     (if n < 10 then [digit_char n] else show_nat (n div 10) @ [digit_char (n mod 10)])"

declare show_nat.simps [simp del]

text \<open>\<^verbatim>\<open>String(i)\<close> for an integer Number \<open>i\<close> of magnitude below \<open>10^21\<close>.\<close>

definition show_int :: "int \<Rightarrow> string" where
  "show_int i = (if i < 0 then CHR ''-'' # show_nat (nat (- i)) else show_nat (nat i))"

definition is_digit :: "char \<Rightarrow> bool" where
  "is_digit c = (c \<in> set ''0123456789'')"

definition digit_val :: "char \<Rightarrow> nat" where
  "digit_val c = of_char c - 48"

definition digits_value :: "string \<Rightarrow> nat" where
  "digits_value ds = foldl (\<lambda>acc c. 10 * acc + digit_val c) 0 ds"

subsection \<open>\<^verbatim>\<open>parseInt(v, 10)\<close>\<close>

text \<open>
  White space that \<^verbatim>\<open>parseInt\<close> skips, among the code units below 256: tab, line feed,
  vertical tab, form feed, carriage return, space and no-break space.
\<close>

definition js_whitespace :: "char \<Rightarrow> bool" where
  "js_whitespace c = (of_char c \<in> {9, 10, 11, 12, 13, 32, 160 :: nat})"

text \<open>
  \<^verbatim>\<open>parseInt(s, 10)\<close>: skip leading white space, read an optional sign, then the longest
  run of decimal digits; \<open>None\<close> is \<^verbatim>\<open>NaN\<close> (no digit was read).
\<close>

definition parseInt_str :: "string \<Rightarrow> int option" where
  "parseInt_str s =
     (let t = dropWhile js_whitespace s;
          neg = (t \<noteq> [] \<and> hd t = CHR ''-'');
          u = (if t \<noteq> [] \<and> (hd t = CHR ''-'' \<or> hd t = CHR ''+'') then tl t else t);
          ds = takeWhile is_digit u
      in if ds = [] then None
         else Some ((if neg then - 1 else 1) * int (digits_value ds)))"

definition js_toString :: "js_value \<Rightarrow> string" where
  "js_toString v =
     (case v of JUndefined \<Rightarrow> ''undefined'' | JNum i \<Rightarrow> show_int i | JStr s \<Rightarrow> s)"

definition parseInt :: "js_value \<Rightarrow> int option" where
  "parseInt v = parseInt_str (js_toString v)"

text \<open>\<^verbatim>\<open>a % b\<close> on integers, for a positive \<open>b\<close>: the sign of the dividend.\<close>

definition js_rem :: "int \<Rightarrow> int \<Rightarrow> int" where
  "js_rem a b = (if a < 0 then - ((- a) mod b) else a mod b)"

text \<open>\<^verbatim>\<open>a || b\<close> on strings: the empty string is the only falsy string.\<close>

definition js_or :: "string \<Rightarrow> string \<Rightarrow> string" where
  "js_or a b = (if a \<noteq> [] then a else b)"

section \<open>The data model\<close>

text \<open>
  A set of an exercise as the session holds it, \<^verbatim>\<open>{reps, weight, completed}\<close>; \<open>reps\<close> and
  \<open>weight\<close> are the strings of the two inputs.
\<close>

record logged_set =
  reps :: string
  weight :: string
  completed :: bool

text \<open>
  An element of a \<^verbatim>\<open>loggedSets\<close> array. Writing beyond the end of a JavaScript array
  leaves holes before the written index, and a JSON round trip turns holes into
  \<^verbatim>\<open>null\<close>, so both are values an element can have.
\<close>

datatype slot = Hole | Null | Entry logged_set

record template_exercise =
  ex_id :: string
  ex_name :: string
  targetSets :: js_value
  targetReps :: js_value
  targetWeight :: js_value

text \<open>\<^verbatim>\<open>{...ex, loggedSets: [...]}\<close>: the template exercise's fields and the sets.\<close>

record session_exercise = template_exercise +
  loggedSets :: "slot list"

record workout_template =
  tpl_id :: "string option"
  tpl_name :: string
  tpl_exercises :: "template_exercise list"

text \<open>
  \<^verbatim>\<open>serverTimestamp()\<close> returns a sentinel object that Firestore replaces by the server's
  time when the document is written. \<^verbatim>\<open>JSON.parse(JSON.stringify(x))\<close> does not keep the
  sentinel's class: the copy is a plain object.
\<close>

datatype timestamp = ServerTimestamp | PlainObject

record active_workout =
  templateId :: "string option"
  name :: string
  startTime :: timestamp
  session_bodyWeight :: string
  session_notes :: string
  exercises :: "session_exercise list"
  isCompleted :: bool

text \<open>\<^verbatim>\<open>{...activeWorkout, endTime: serverTimestamp(), ...}\<close>\<close>

record workout_log = active_workout +
  endTime :: timestamp

datatype screen = Home | CreateWorkout | ActiveWorkout | WorkoutHistory

text \<open>
  The state of the component: \<open>db\<close> tells whether the Firestore handle is set,
  \<open>userId\<close> is \<open>None\<close> for \<^verbatim>\<open>null\<close>, \<open>activeWorkout\<close> is \<open>None\<close> for \<^verbatim>\<open>null\<close>.
\<close>

record app_state =
  db :: bool
  userId :: "string option"
  activeWorkout :: "active_workout option"
  currentScreen :: screen
  timerActive :: bool
  timerPaused :: bool
  timerSeconds :: int
  bodyWeight :: string
  showBodyWeightInput :: bool
  workoutNotes :: string

section \<open>The rest timer\<close>

text \<open>
  The interval callback of the timer effect. The effect installs the interval only
  while \<open>timerActive \<and> \<not> timerPaused\<close>, and clears it otherwise, so a tick in any other
  state does nothing.
\<close>

definition tick :: "app_state \<Rightarrow> app_state" where
  "tick st =
     (if timerActive st \<and> \<not> timerPaused st then
        (if timerSeconds st \<le> 1 then st\<lparr>timerActive := False, timerSeconds := 0\<rparr>
         else st\<lparr>timerSeconds := timerSeconds st - 1\<rparr>)
      else st)"

primrec ticks :: "nat \<Rightarrow> app_state \<Rightarrow> app_state" where
  "ticks 0 st = st"
| "ticks (Suc k) st = ticks k (tick st)"

definition startTimer :: "int \<Rightarrow> app_state \<Rightarrow> app_state" where
  "startTimer duration st =
     st\<lparr>timerSeconds := duration, timerActive := True, timerPaused := False\<rparr>"

definition pauseTimer :: "app_state \<Rightarrow> app_state" where
  "pauseTimer st = st\<lparr>timerPaused := True\<rparr>"

definition resumeTimer :: "app_state \<Rightarrow> app_state" where
  "resumeTimer st = st\<lparr>timerPaused := False\<rparr>"

definition stopTimer :: "app_state \<Rightarrow> app_state" where
  "stopTimer st = st\<lparr>timerActive := False, timerPaused := False, timerSeconds := 180\<rparr>"

text \<open>
  \<^verbatim>\<open>formatTime\<close>, for an integer number of seconds. The code computes on Numbers, which
  are IEEE doubles: below \<open>2^53\<close> every integer is a Number, \<^verbatim>\<open>totalSeconds % 60\<close> and
  \<^verbatim>\<open>Math.floor(totalSeconds / 60)\<close> are the exact remainder and quotient, and the template
  string prints every digit, so there the model is the code. From \<open>60 * 2^48\<close> on the
  quotient can round up to the next integer, and from \<open>10^21\<close> on a Number is printed in
  exponent notation; the model does not follow the code there, and nothing below is
  stated about such values.
\<close>

definition formatTime :: "int \<Rightarrow> string" where
  "formatTime totalSeconds =
     (let minutes = totalSeconds div 60;
          seconds = js_rem totalSeconds 60
      in show_int minutes @ '':'' @ (if seconds < 10 then ''0'' else '''') @ show_int seconds)"

section \<open>Starting a workout\<close>

text \<open>The placeholder \<^verbatim>\<open>{ reps: '', weight: '', completed: false }\<close>.\<close>

definition emptySet :: logged_set where
  "emptySet = \<lparr>reps = '''', weight = '''', completed = False\<rparr>"

text \<open>
  \<^verbatim>\<open>Array(parseInt(ex.targetSets, 10) || 1).fill(null).map(() => ({...}))\<close>. \<^verbatim>\<open>NaN\<close> and
  \<open>0\<close> are falsy, so \<^verbatim>\<open>|| 1\<close> replaces them by \<open>1\<close>; every other number is kept.
  \<^verbatim>\<open>Array(n)\<close> throws \<^verbatim>\<open>RangeError\<close> unless \<open>0 \<le> n \<le> 2^32 - 1\<close>.
\<close>

definition seedLoggedSets :: "js_value \<Rightarrow> js_error + slot list" where
  "seedLoggedSets ts =
     (let n = (case parseInt ts of None \<Rightarrow> 1 | Some k \<Rightarrow> if k = 0 then 1 else k)
      in if n < 0 \<or> 4294967295 < n then Inl RangeError
         else Inr (replicate (nat n) (Entry emptySet)))"

text \<open>The callback of \<^verbatim>\<open>workoutTemplate.exercises.map\<close>.\<close>

definition startExercise :: "template_exercise \<Rightarrow> js_error + session_exercise" where
  "startExercise ex =
     (case seedLoggedSets (targetSets ex) of
        Inl e \<Rightarrow> Inl e
      | Inr sets \<Rightarrow>
          Inr \<lparr>ex_id = ex_id ex, ex_name = ex_name ex, targetSets = targetSets ex,
               targetReps = targetReps ex, targetWeight = targetWeight ex,
               loggedSets = sets\<rparr>)"

text \<open>\<^verbatim>\<open>xs.map(f)\<close> for a callback that can throw: the first exception ends the loop.\<close>

fun map_throwing :: "('a \<Rightarrow> js_error + 'b) \<Rightarrow> 'a list \<Rightarrow> js_error + 'b list" where
  "map_throwing f [] = Inr []"
| "map_throwing f (x # xs) =
     (case f x of
        Inl e \<Rightarrow> Inl e
      | Inr y \<Rightarrow> (case map_throwing f xs of Inl e \<Rightarrow> Inl e | Inr ys \<Rightarrow> Inr (y # ys)))"

text \<open>
  \<^verbatim>\<open>handleStartWorkout\<close> builds the new session before it calls any setter, so an
  exception leaves the state as it was. It reads nothing of the state.
\<close>

definition handleStartWorkout :: "workout_template \<Rightarrow> app_state \<Rightarrow> js_error + app_state" where
  "handleStartWorkout workoutTemplate st =
     (case map_throwing startExercise (tpl_exercises workoutTemplate) of
        Inl e \<Rightarrow> Inl e
      | Inr exs \<Rightarrow>
          Inr (st\<lparr>activeWorkout :=
                     Some \<lparr>templateId = tpl_id workoutTemplate,
                           name = tpl_name workoutTemplate,
                           startTime = ServerTimestamp,
                           session_bodyWeight = '''',
                           session_notes = '''',
                           exercises = exs,
                           isCompleted = False\<rparr>,
                   workoutNotes := '''',
                   bodyWeight := '''',
                   showBodyWeightInput := True,
                   currentScreen := ActiveWorkout\<rparr>))"

section \<open>Logging sets\<close>

text \<open>
  \<^verbatim>\<open>xs[i] = v\<close> on an array: inside the array the element is replaced; from the length
  up to \<open>2^32 - 2\<close> the array grows to \<open>i + 1\<close> elements, with holes in between; a larger
  \<open>i\<close> is not an array index, and the assignment sets a property that no array method
  sees.
\<close>

definition array_set :: "slot list \<Rightarrow> nat \<Rightarrow> slot \<Rightarrow> slot list" where
  "array_set xs i v =
     (if i < length xs then xs[i := v]
      else if i < 4294967295 then xs @ replicate (i - length xs) Hole @ [v]
      else xs)"

text \<open>
  \<^verbatim>\<open>handleLogSet\<close>: the updater reads \<^verbatim>\<open>updatedWorkout.exercises[exerciseIndex].loggedSets\<close>,
  which throws \<^verbatim>\<open>TypeError\<close> when there is no workout (\<^verbatim>\<open>{...null}\<close> has no \<^verbatim>\<open>exercises\<close>) or
  no such exercise; the set index is not checked. Then the rest timer starts with its
  default duration.
\<close>

definition handleLogSet ::
    "nat \<Rightarrow> nat \<Rightarrow> string \<Rightarrow> string \<Rightarrow> app_state \<Rightarrow> js_error + app_state" where
  "handleLogSet exerciseIndex setIndex reps_arg weight_arg st =
     (case activeWorkout st of
        None \<Rightarrow> Inl TypeError
      | Some prev \<Rightarrow>
          if exerciseIndex < length (exercises prev) then
            let ex = exercises prev ! exerciseIndex;
                sets = array_set (loggedSets ex) setIndex
                         (Entry \<lparr>reps = reps_arg, weight = weight_arg, completed = True\<rparr>);
                updatedWorkout =
                  prev\<lparr>exercises := (exercises prev)[exerciseIndex := ex\<lparr>loggedSets := sets\<rparr>]\<rparr>
            in Inr (startTimer 180 (st\<lparr>activeWorkout := Some updatedWorkout\<rparr>))
          else Inl TypeError)"

text \<open>
  The \<^verbatim>\<open>onClick\<close> of the "Log Set" button of the set at \<open>(exIndex, setIndex)\<close>:
  \<^verbatim>\<open>() => handleLogSet(exIndex, setIndex, set.reps, set.weight)\<close>, where \<^verbatim>\<open>set\<close> is the
  element of the current session at that place. Reading \<^verbatim>\<open>set.reps\<close> where there is no
  set object is a \<^verbatim>\<open>TypeError\<close>. The screen shows the button only on a set that is not
  completed and has \<open>reps\<close> or \<open>weight\<close> filled in; the model is the closure itself,
  whatever the set holds.
\<close>

definition logSet_onClick :: "nat \<Rightarrow> nat \<Rightarrow> app_state \<Rightarrow> js_error + app_state" where
  "logSet_onClick exIndex setIndex st =
     (case activeWorkout st of
        None \<Rightarrow> Inl TypeError
      | Some aw \<Rightarrow>
          if exIndex < length (exercises aw)
             \<and> setIndex < length (loggedSets (exercises aw ! exIndex)) then
            (case loggedSets (exercises aw ! exIndex) ! setIndex of
               Entry s \<Rightarrow> handleLogSet exIndex setIndex (reps s) (weight s) st
             | Hole \<Rightarrow> Inl TypeError
             | Null \<Rightarrow> Inl TypeError)
          else Inl TypeError)"

definition handleAddSetToExercise :: "nat \<Rightarrow> app_state \<Rightarrow> js_error + app_state" where
  "handleAddSetToExercise exerciseIndex st =
     (case activeWorkout st of
        None \<Rightarrow> Inl TypeError
      | Some prev \<Rightarrow>
          if exerciseIndex < length (exercises prev) then
            let ex = exercises prev ! exerciseIndex;
                updatedWorkout =
                  prev\<lparr>exercises := (exercises prev)
                          [exerciseIndex := ex\<lparr>loggedSets := loggedSets ex @ [Entry emptySet]\<rparr>]\<rparr>
            in Inr (st\<lparr>activeWorkout := Some updatedWorkout\<rparr>)
          else Inl TypeError)"

text \<open>
  \<^verbatim>\<open>JSON.parse(JSON.stringify(prev))\<close> on a session: strings, booleans, integers and
  \<^verbatim>\<open>null\<close> come back as they were, a hole of an array comes back as \<^verbatim>\<open>null\<close>, and the
  timestamp sentinel as a plain object.
\<close>

definition json_slot :: "slot \<Rightarrow> slot" where
  "json_slot x = (case x of Hole \<Rightarrow> Null | Null \<Rightarrow> Null | Entry s \<Rightarrow> Entry s)"

definition json_copy :: "active_workout \<Rightarrow> active_workout" where
  "json_copy w =
     w\<lparr>startTime := PlainObject,
       exercises := map (\<lambda>ex. ex\<lparr>loggedSets := map json_slot (loggedSets ex)\<rparr>) (exercises w)\<rparr>"

text \<open>The two inputs of a set row call \<^verbatim>\<open>handleSetInputChange\<close> with these fields.\<close>

datatype set_field = Reps | Weight

definition assign_field :: "set_field \<Rightarrow> string \<Rightarrow> logged_set \<Rightarrow> logged_set" where
  "assign_field field v s = (case field of Reps \<Rightarrow> s\<lparr>reps := v\<rparr> | Weight \<Rightarrow> s\<lparr>weight := v\<rparr>)"

text \<open>
  \<^verbatim>\<open>handleSetInputChange\<close>: on the deep copy,
  \<^verbatim>\<open>updatedWorkout.exercises[exerciseIndex].loggedSets[setIndex][field] = value\<close>. Each
  step of the path throws \<^verbatim>\<open>TypeError\<close> when the object it reads from is \<^verbatim>\<open>null\<close> or
  \<^verbatim>\<open>undefined\<close>.
\<close>

definition handleSetInputChange ::
    "nat \<Rightarrow> nat \<Rightarrow> set_field \<Rightarrow> string \<Rightarrow> app_state \<Rightarrow> js_error + app_state" where
  "handleSetInputChange exerciseIndex setIndex field v st =
     (case activeWorkout st of
        None \<Rightarrow> Inl TypeError
      | Some prev \<Rightarrow>
          let updatedWorkout = json_copy prev in
          if exerciseIndex < length (exercises updatedWorkout) then
            let ex = exercises updatedWorkout ! exerciseIndex in
            if setIndex < length (loggedSets ex) then
              (case loggedSets ex ! setIndex of
                 Entry s \<Rightarrow>
                   Inr (st\<lparr>activeWorkout :=
                     Some (updatedWorkout\<lparr>exercises := (exercises updatedWorkout)
                       [exerciseIndex :=
                          ex\<lparr>loggedSets := (loggedSets ex)
                               [setIndex := Entry (assign_field field v s)]\<rparr>]\<rparr>)\<rparr>)
               | Hole \<Rightarrow> Inl TypeError
               | Null \<Rightarrow> Inl TypeError)
            else Inl TypeError
          else Inl TypeError)"

section \<open>Finishing a workout\<close>

text \<open>
  \<^verbatim>\<open>ex.loggedSets.filter(s => s.completed)\<close>: \<^verbatim>\<open>filter\<close> does not call the callback on a
  hole, and the callback throws \<^verbatim>\<open>TypeError\<close> on \<^verbatim>\<open>null\<close>.
\<close>

fun filter_completed :: "slot list \<Rightarrow> js_error + slot list" where
  "filter_completed [] = Inr []"
| "filter_completed (Hole # xs) = filter_completed xs"
| "filter_completed (Null # xs) = Inl TypeError"
| "filter_completed (Entry s # xs) =
     (case filter_completed xs of
        Inl e \<Rightarrow> Inl e
      | Inr ys \<Rightarrow> Inr (if completed s then Entry s # ys else ys))"

definition finishExercise :: "session_exercise \<Rightarrow> js_error + session_exercise" where
  "finishExercise ex =
     (case filter_completed (loggedSets ex) of
        Inl e \<Rightarrow> Inl e
      | Inr sets \<Rightarrow> Inr (ex\<lparr>loggedSets := sets\<rparr>))"

text \<open>The object \<^verbatim>\<open>workoutLog\<close> of \<^verbatim>\<open>handleFinishWorkout\<close>.\<close>

definition buildWorkoutLog :: "app_state \<Rightarrow> active_workout \<Rightarrow> js_error + workout_log" where
  "buildWorkoutLog st aw =
     (let finalBodyWeight = js_or (js_or (bodyWeight st) (session_bodyWeight aw)) '''';
          finalNotes = js_or (js_or (workoutNotes st) (session_notes aw)) ''''
      in case map_throwing finishExercise (exercises aw) of
           Inl e \<Rightarrow> Inl e
         | Inr exs \<Rightarrow>
             Inr \<lparr>templateId = templateId aw,
                  name = name aw,
                  startTime = startTime aw,
                  session_bodyWeight = finalBodyWeight,
                  session_notes = finalNotes,
                  exercises = exs,
                  isCompleted = True,
                  endTime = ServerTimestamp\<rparr>)"

text \<open>
  \<^verbatim>\<open>await addDoc(collection(db, path), workoutLog)\<close> either resolves with the reference
  of the new document or rejects. The store is a parameter of the model.
\<close>

datatype addDoc_result = Resolved string | Rejected

text \<open>
  What a call of \<^verbatim>\<open>handleFinishWorkout\<close> leaves behind when its promise resolves: the
  state, the document the store accepted, and the text of the \<^verbatim>\<open>alert\<close>, if any. The
  handler returns at once, with nothing done, when the database handle, the user or
  the session is missing. An exception while the log is built is raised before the
  \<^verbatim>\<open>try\<close> block, so it rejects the handler's own promise. A rejection of \<^verbatim>\<open>addDoc\<close> is
  caught: the handler logs it to the console, shows an alert and returns normally.
\<close>

record finish_result =
  new_state :: app_state
  stored :: "workout_log option"
  alerted :: "string option"

definition handleFinishWorkout ::
    "(workout_log \<Rightarrow> addDoc_result) \<Rightarrow> app_state \<Rightarrow> js_error + finish_result" where
  "handleFinishWorkout addDoc st =
     (case activeWorkout st of
        None \<Rightarrow> Inr \<lparr>new_state = st, stored = None, alerted = None\<rparr>
      | Some aw \<Rightarrow>
          if \<not> db st \<or> userId st = None \<or> userId st = Some '''' then
            Inr \<lparr>new_state = st, stored = None, alerted = None\<rparr>
          else
            (case buildWorkoutLog st aw of
               Inl e \<Rightarrow> Inl e
             | Inr workoutLog \<Rightarrow>
                 (case addDoc workoutLog of
                    Resolved ref \<Rightarrow>
                      Inr \<lparr>new_state =
                             (stopTimer (st\<lparr>activeWorkout := None, currentScreen := Home\<rparr>))
                               \<lparr>bodyWeight := '''', workoutNotes := '''',
                                showBodyWeightInput := False\<rparr>,
                           stored = Some workoutLog,
                           alerted = None\<rparr>
                  | Rejected \<Rightarrow>
                      Inr \<lparr>new_state = st, stored = None,
                           alerted = Some ''Failed to save workout log.''\<rparr>)))"

section \<open>Notions used to state the properties\<close>


text \<open>An array element that is a set object with \<open>completed = true\<close>.\<close>

fun is_completed_entry :: "slot \<Rightarrow> bool" where
  "is_completed_entry (Entry s) = completed s"
| "is_completed_entry Hole = False"
| "is_completed_entry Null = False"

text \<open>A session in which every array element is a set object.\<close>

definition all_entries :: "app_state \<Rightarrow> bool" where
  "all_entries st =
     (case activeWorkout st of
        None \<Rightarrow> True
      | Some aw \<Rightarrow>
          list_all (\<lambda>ex. list_all (\<lambda>x. x \<noteq> Hole \<and> x \<noteq> Null) (loggedSets ex)) (exercises aw))"

text \<open>
  The timer states that the timer's operations produce from a stopped timer, when it is
  started with positive durations only (the application starts it with 180).
\<close>

inductive timer_reachable :: "app_state \<Rightarrow> bool" where
  stopped: "\<not> timerActive st \<Longrightarrow> timer_reachable st"
| started: "timer_reachable st \<Longrightarrow> 0 < duration \<Longrightarrow> timer_reachable (startTimer duration st)"
| paused: "timer_reachable st \<Longrightarrow> timer_reachable (pauseTimer st)"
| resumed: "timer_reachable st \<Longrightarrow> timer_reachable (resumeTimer st)"
| reset: "timer_reachable st \<Longrightarrow> timer_reachable (stopTimer st)"
| ticked: "timer_reachable st \<Longrightarrow> timer_reachable (tick st)"

text \<open>
  The states the screens can produce. Without a session every state is possible. With
  one, the user can start a workout from the home screen, type into a set, press the
  "Log Set" button of a set, add a set, finish (or discard, which leaves no session),
  and do anything that leaves the session alone: the timer, the navigation, the body
  weight and the notes.
\<close>

inductive ui_reachable :: "app_state \<Rightarrow> bool" where
  no_session: "activeWorkout st = None \<Longrightarrow> ui_reachable st"
| same_session: "ui_reachable st \<Longrightarrow> activeWorkout st' = activeWorkout st \<Longrightarrow> ui_reachable st'"
| start_workout: "ui_reachable st \<Longrightarrow> handleStartWorkout tpl st = Inr st' \<Longrightarrow> ui_reachable st'"
| set_input:
    "ui_reachable st \<Longrightarrow> handleSetInputChange i j field v st = Inr st' \<Longrightarrow> ui_reachable st'"
| log_set: "ui_reachable st \<Longrightarrow> logSet_onClick i j st = Inr st' \<Longrightarrow> ui_reachable st'"
| add_set: "ui_reachable st \<Longrightarrow> handleAddSetToExercise i st = Inr st' \<Longrightarrow> ui_reachable st'"
| finish_workout:
    "ui_reachable st \<Longrightarrow> handleFinishWorkout addDoc st = Inr r \<Longrightarrow> ui_reachable (new_state r)"

text \<open>Two stores: one accepts every document, one rejects every document.\<close>

definition addDoc_accepts :: "workout_log \<Rightarrow> addDoc_result" where
  "addDoc_accepts workoutLog = Resolved ''log1''"

definition addDoc_rejects :: "workout_log \<Rightarrow> addDoc_result" where
  "addDoc_rejects workoutLog = Rejected"

section \<open>Concrete templates and states\<close>

text \<open>The component after sign-in, with no session: the initial values of the state.\<close>

definition initial_state :: app_state where
  "initial_state =
     \<lparr>db = True, userId = Some ''u1'', activeWorkout = None, currentScreen = Home,
      timerActive = False, timerPaused = False, timerSeconds = 180, bodyWeight = '''',
      showBodyWeightInput = False, workoutNotes = ''''\<rparr>"

text \<open>
  The template \<^verbatim>\<open>{name: "Push Day", exercises: [{name: "Bench", targetSets, targetReps: 10,
  targetWeight: 135}]}\<close>, for a given \<^verbatim>\<open>targetSets\<close>.
\<close>

definition bench :: "js_value \<Rightarrow> template_exercise" where
  "bench sets =
     \<lparr>ex_id = ''e1'', ex_name = ''Bench'', targetSets = sets, targetReps = JNum 10,
      targetWeight = JNum 135\<rparr>"

definition push_day :: "js_value \<Rightarrow> workout_template" where
  "push_day sets = \<lparr>tpl_id = Some ''t1'', tpl_name = ''Push Day'', tpl_exercises = [bench sets]\<rparr>"

definition leg_day :: workout_template where
  "leg_day =
     \<lparr>tpl_id = Some ''t2'', tpl_name = ''Leg Day'',
      tpl_exercises =
        [\<lparr>ex_id = ''e2'', ex_name = ''Squat'', targetSets = JStr ''2'', targetReps = JStr ''5'',
          targetWeight = JStr ''''\<rparr>]\<rparr>"

text \<open>A session of Push Day with three target sets, for a start time and the sets.\<close>

definition push_day_session :: "timestamp \<Rightarrow> slot list \<Rightarrow> active_workout" where
  "push_day_session t sets =
     \<lparr>templateId = Some ''t1'', name = ''Push Day'', startTime = t,
      session_bodyWeight = '''', session_notes = '''',
      exercises =
        [\<lparr>ex_id = ''e1'', ex_name = ''Bench'', targetSets = JNum 3, targetReps = JNum 10,
          targetWeight = JNum 135, loggedSets = sets\<rparr>],
      isCompleted = False\<rparr>"

text \<open>Push Day just started.\<close>

definition started_state :: app_state where
  "started_state =
     \<lparr>db = True, userId = Some ''u1'',
      activeWorkout =
        Some (push_day_session ServerTimestamp [Entry emptySet, Entry emptySet, Entry emptySet]),
      currentScreen = ActiveWorkout,
      timerActive = False, timerPaused = False, timerSeconds = 180, bodyWeight = '''',
      showBodyWeightInput = True, workoutNotes = ''''\<rparr>"

text \<open>Then 10 reps and 135 lbs typed into the first set.\<close>

definition typed_state :: app_state where
  "typed_state =
     \<lparr>db = True, userId = Some ''u1'',
      activeWorkout =
        Some (push_day_session PlainObject
               [Entry \<lparr>reps = ''10'', weight = ''135'', completed = False\<rparr>,
                Entry emptySet, Entry emptySet]),
      currentScreen = ActiveWorkout,
      timerActive = False, timerPaused = False, timerSeconds = 180, bodyWeight = '''',
      showBodyWeightInput = True, workoutNotes = ''''\<rparr>"

text \<open>Then the first set logged: one completed set, two placeholders, the timer running.\<close>

definition logged_state :: app_state where
  "logged_state =
     \<lparr>db = True, userId = Some ''u1'',
      activeWorkout =
        Some (push_day_session PlainObject
               [Entry \<lparr>reps = ''10'', weight = ''135'', completed = True\<rparr>,
                Entry emptySet, Entry emptySet]),
      currentScreen = ActiveWorkout,
      timerActive = True, timerPaused = False, timerSeconds = 180, bodyWeight = '''',
      showBodyWeightInput = True, workoutNotes = ''''\<rparr>"

text \<open>Then body weight 170 and the note "felt strong" typed in.\<close>

definition finishing_state :: app_state where
  "finishing_state = logged_state\<lparr>bodyWeight := ''170'', workoutNotes := ''felt strong''\<rparr>"

text \<open>The document that finishing this session sends to the store.\<close>

definition push_day_log :: workout_log where
  "push_day_log =
     \<lparr>templateId = Some ''t1'', name = ''Push Day'', startTime = PlainObject,
      session_bodyWeight = ''170'', session_notes = ''felt strong'',
      exercises =
        [\<lparr>ex_id = ''e1'', ex_name = ''Bench'', targetSets = JNum 3, targetReps = JNum 10,
          targetWeight = JNum 135,
          loggedSets = [Entry \<lparr>reps = ''10'', weight = ''135'', completed = True\<rparr>]\<rparr>],
      isCompleted = True, endTime = ServerTimestamp\<rparr>"

text \<open>
  \<open>started_state\<close> after \<^verbatim>\<open>handleLogSet(0, 3, "8", "135")\<close>, an index one past the three
  sets of the exercise.
\<close>

definition overrun_state :: app_state where
  "overrun_state =
     \<lparr>db = True, userId = Some ''u1'',
      activeWorkout =
        Some (push_day_session ServerTimestamp
               [Entry emptySet, Entry emptySet, Entry emptySet,
                Entry \<lparr>reps = ''8'', weight = ''135'', completed = True\<rparr>]),
      currentScreen = ActiveWorkout,
      timerActive = True, timerPaused = False, timerSeconds = 180, bodyWeight = '''',
      showBodyWeightInput = True, workoutNotes = ''''\<rparr>"

text \<open>\<open>logged_state\<close> after Leg Day is started from the home screen.\<close>

definition leg_day_state :: app_state where
  "leg_day_state =
     \<lparr>db = True, userId = Some ''u1'',
      activeWorkout =
        Some \<lparr>templateId = Some ''t2'', name = ''Leg Day'', startTime = ServerTimestamp,
              session_bodyWeight = '''', session_notes = '''',
              exercises =
                [\<lparr>ex_id = ''e2'', ex_name = ''Squat'', targetSets = JStr ''2'',
                  targetReps = JStr ''5'', targetWeight = JStr '''',
                  loggedSets = [Entry emptySet, Entry emptySet]\<rparr>],
              isCompleted = False\<rparr>,
      currentScreen = ActiveWorkout,
      timerActive = True, timerPaused = False, timerSeconds = 180, bodyWeight = '''',
      showBodyWeightInput = True, workoutNotes = ''''\<rparr>"

section \<open>Decimal numerals and \<^verbatim>\<open>parseInt\<close>\<close>

lemma digit_char_simps:
  "digit_char 0 = CHR ''0''" "digit_char 1 = CHR ''1''" "digit_char 2 = CHR ''2''"
  "digit_char 3 = CHR ''3''" "digit_char 4 = CHR ''4''" "digit_char 5 = CHR ''5''"
  "digit_char 6 = CHR ''6''" "digit_char 7 = CHR ''7''" "digit_char 8 = CHR ''8''"
  "digit_char 9 = CHR ''9''" "digit_char (Suc 0) = CHR ''1''"
  by (simp_all add: digit_char_def)

lemma less_10_cases:
  "d < 10 \<Longrightarrow>
   d = 0 \<or> d = 1 \<or> d = 2 \<or> d = 3 \<or> d = 4 \<or> d = 5 \<or> d = 6 \<or> d = 7 \<or> d = 8 \<or> d = (9::nat)"
  by arith

lemma is_digit_digit_char: "d < 10 \<Longrightarrow> is_digit (digit_char d)"
  using less_10_cases [of d] by (auto simp: digit_char_simps is_digit_def)

lemma digit_val_digit_char: "d < 10 \<Longrightarrow> digit_val (digit_char d) = d"
  using less_10_cases [of d] by (auto simp: digit_char_simps digit_val_def)

lemma is_digit_not_special:
  "is_digit c \<Longrightarrow>
   \<not> js_whitespace c \<and> c \<noteq> CHR ''-'' \<and> c \<noteq> CHR ''+'' \<and> c \<noteq> CHR '':''"
  by (auto simp: is_digit_def js_whitespace_def)

lemma show_nat_digits: "list_all is_digit (show_nat n)"
proof (induction n rule: show_nat.induct)
  case (1 n)
  show ?case
  proof (cases "n < 10")
    case True
    then show ?thesis by (simp add: show_nat.simps [of n] is_digit_digit_char)
  next
    case False
    with 1 show ?thesis by (simp add: show_nat.simps [of n] is_digit_digit_char)
  qed
qed










lemma parseInt_examples:
  "parseInt (JNum 0) = Some 0" "parseInt (JStr ''0'') = Some 0" "parseInt (JStr '''') = None"
  "parseInt (JStr ''abc'') = None" "parseInt JUndefined = None"
  "parseInt (JStr ''3'') = Some 3" "parseInt (JStr '' 12px'') = Some 12"
  "parseInt (JStr ''-3'') = Some (- 3)" "parseInt (JStr ''2.5'') = Some 2"
  by code_simp+

lemma show_int_nat: "show_int (int n) = show_nat n"
  by (simp add: show_int_def)

lemma colon_not_in_show_nat: "CHR '':'' \<notin> set (show_nat n)"
  using show_nat_digits [of n] is_digit_not_special by (auto simp: list_all_iff)

section \<open>The timer display\<close>

text \<open>The shape of the model's output; it is used below only for numbers below \<open>2^53\<close>.\<close>

lemma formatTime_nat:
  "formatTime (int secs) =
     show_nat (secs div 60) @ '':'' @
       [digit_char (secs mod 60 div 10), digit_char (secs mod 60 mod 10)]"
proof -
  let ?s = "secs mod 60"
  have m: "int secs div 60 = int (secs div 60)" by (simp add: zdiv_int)
  have r: "js_rem (int secs) 60 = int ?s" by (simp add: js_rem_def zmod_int)
  have "(if int ?s < 10 then ''0'' else '''') @ show_nat ?s =
        [digit_char (?s div 10), digit_char (?s mod 10)]"
  proof (cases "?s < 10")
    case True
    then show ?thesis by (simp add: show_nat.simps [of ?s] digit_char_simps)
  next
    case False
    moreover have "?s div 10 < 10" by simp
    ultimately show ?thesis
      by (simp add: show_nat.simps [of ?s] show_nat.simps [of "?s div 10"])
  qed
  then show ?thesis
    by (simp add: formatTime_def Let_def m r show_int_nat del: of_nat_mod of_nat_div)
qed

lemma two_digits_value:
  "s < 60 \<Longrightarrow> digits_value [digit_char (s div 10), digit_char (s mod 10)] = s"
proof -
  assume "s < 60"
  then have "s div 10 < 10" by simp
  then show ?thesis
    by (simp add: digits_value_def digit_val_digit_char)
qed

text \<open>
  Claim C9. For every non-negative whole number of seconds below \<open>2^53\<close>, the integers
  on which the arithmetic of Numbers is exact, \<^verbatim>\<open>formatTime\<close> returns the minutes (the
  number divided by 60, as a decimal numeral without padding), a colon, and the
  seconds (the number modulo 60) as exactly two decimal digits, padded with a zero
  below ten. The minutes hold no colon, so the seconds field is what follows the only
  colon. 180 seconds are shown as \<^verbatim>\<open>3:00\<close>. The bound is the range on which the
  definition is the code; the proof itself does not need it.
\<close>

theorem formatTime_seconds_two_digits:
  assumes "secs < 2 ^ 53"
  shows "formatTime (int secs) =
     show_nat (secs div 60) @ '':'' @
       [digit_char (secs mod 60 div 10), digit_char (secs mod 60 mod 10)]
   \<and> CHR '':'' \<notin> set (show_nat (secs div 60))
   \<and> is_digit (digit_char (secs mod 60 div 10))
   \<and> is_digit (digit_char (secs mod 60 mod 10))
   \<and> digits_value [digit_char (secs mod 60 div 10), digit_char (secs mod 60 mod 10)]
       = secs mod 60
   \<and> formatTime 180 = ''3:00''"
proof -
  have "secs mod 60 div 10 < 10" by simp
  then have "is_digit (digit_char (secs mod 60 div 10))" by (rule is_digit_digit_char)
  moreover have "is_digit (digit_char (secs mod 60 mod 10))" by (simp add: is_digit_digit_char)
  moreover have "formatTime 180 = ''3:00''" by code_simp
  ultimately show ?thesis
    by (simp add: formatTime_nat colon_not_in_show_nat two_digits_value)
qed

theorem formatTime_seconds_two_digits_witness:
  "(125 :: nat) < 2 ^ 53 \<and> formatTime 125 = ''2:05''
   \<and> formatTime 59 = ''0:59'' \<and> formatTime 3600 = ''60:00''"
proof -
  have h: "(125 :: nat) < 2 ^ 53" "(59 :: nat) < 2 ^ 53" "(3600 :: nat) < 2 ^ 53"
    by simp_all
  have d: "show_nat 2 = ''2''" "show_nat 0 = ''0''" "show_nat 60 = ''60''" by code_simp+
  from formatTime_seconds_two_digits [OF h(1)] formatTime_seconds_two_digits [OF h(2)]
    formatTime_seconds_two_digits [OF h(3)]
  show ?thesis by (simp add: d digit_char_simps)
qed

section \<open>The countdown\<close>



lemma tick_idle: "\<not> timerActive st \<or> timerPaused st \<Longrightarrow> tick st = st"
  by (auto simp: tick_def)

lemma ticks_idle: "\<not> timerActive st \<or> timerPaused st \<Longrightarrow> ticks k st = st"
  by (induction k) (simp_all add: tick_idle)



text \<open>
  A running timer always has at least one second left: the tick that reaches 0 stops
  it. So the hypothesis \<open>0 < timerSeconds st\<close> of the next theorem holds in every state
  the timer reaches.
\<close>

lemma running_timer_positive:
  "timer_reachable st \<Longrightarrow> timerActive st \<Longrightarrow> 0 < timerSeconds st"
  by (induction rule: timer_reachable.induct)
     (auto simp: startTimer_def pauseTimer_def resumeTimer_def stopTimer_def tick_def
           split: if_splits)



text \<open>
  Claim C8, as the code has it. \<^verbatim>\<open>pauseTimer\<close> has no precondition and cannot fail: in
  every state, running or not, it sets \<open>timerPaused\<close> and changes nothing else; neither
  \<open>timerActive\<close> nor \<open>timerSeconds\<close> changes, and while the flag is set no tick changes
  the state, so the countdown is frozen at its value.
\<close>

theorem pauseTimer_sets_flag_in_every_state:
  "pauseTimer st = st\<lparr>timerPaused := True\<rparr>
   \<and> timerPaused (pauseTimer st)
   \<and> timerActive (pauseTimer st) = timerActive st
   \<and> timerSeconds (pauseTimer st) = timerSeconds st
   \<and> ticks k (pauseTimer st) = pauseTimer st"
  by (simp add: ticks_idle pauseTimer_def)

theorem pauseTimer_sets_flag_in_every_state_witness:
  "pauseTimer logged_state = logged_state\<lparr>timerPaused := True\<rparr>
   \<and> timerSeconds (ticks 10 (pauseTimer logged_state)) = 180"
proof -
  note p = pauseTimer_sets_flag_in_every_state [of logged_state 10]
  from p have a: "pauseTimer logged_state = logged_state\<lparr>timerPaused := True\<rparr>"
    by (rule conjunct1)
  from p have b: "ticks 10 (pauseTimer logged_state) = pauseTimer logged_state" by blast
  from p have c: "timerSeconds (pauseTimer logged_state) = timerSeconds logged_state" by blast
  have "timerSeconds logged_state = 180" by (simp add: logged_state_def)
  with a show ?thesis unfolding b c by (rule conjI)
qed

text \<open>
  The claim as the specification states it fails: with the timer not running,
  \<^verbatim>\<open>pauseTimer\<close> returns normally and the state is no longer the same, since the pause
  flag is now set.
\<close>

theorem pauseTimer_not_running_counterexample:
  "\<not> timerActive initial_state
   \<and> pauseTimer initial_state = initial_state\<lparr>timerPaused := True\<rparr>
   \<and> pauseTimer initial_state \<noteq> initial_state"
  by (simp add: initial_state_def pauseTimer_def)

section \<open>Starting a workout: the seeded sets\<close>

lemma seedLoggedSets_cases:
  "seedLoggedSets v =
     (case parseInt v of
        None \<Rightarrow> Inr [Entry emptySet]
      | Some k \<Rightarrow>
          if k = 0 then Inr [Entry emptySet]
          else if k < 0 \<or> 4294967295 < k then Inl RangeError
          else Inr (replicate (nat k) (Entry emptySet)))"
proof (cases "parseInt v")
  case None
  then show ?thesis unfolding seedLoggedSets_def Let_def by simp
next
  case (Some k)
  show ?thesis
  proof (cases "k = 0")
    case True
    with Some show ?thesis unfolding seedLoggedSets_def Let_def by simp
  next
    case False
    with Some show ?thesis unfolding seedLoggedSets_def Let_def by simp
  qed
qed


lemma seedLoggedSets_fallback:
  "parseInt v = None \<or> parseInt v = Some 0 \<Longrightarrow> seedLoggedSets v = Inr [Entry emptySet]"
  by (auto simp: seedLoggedSets_cases)


lemma seedLoggedSets_error: "seedLoggedSets v = Inl e \<Longrightarrow> e = RangeError"
  by (simp add: seedLoggedSets_cases split: option.splits if_splits)

lemma startExercise_error: "startExercise ex = Inl e \<Longrightarrow> e = RangeError"
  by (cases "seedLoggedSets (targetSets ex)") (simp_all add: startExercise_def seedLoggedSets_error)


text \<open>
  Where \<^verbatim>\<open>parseInt\<close> gives \<^verbatim>\<open>NaN\<close> or 0 (an empty field, text, \<^verbatim>\<open>undefined\<close>, "0"), the
  fallback \<^verbatim>\<open>|| 1\<close> seeds one placeholder.
\<close>

lemma startExercise_fallback:
  assumes "parseInt (targetSets ex) = None \<or> parseInt (targetSets ex) = Some 0"
  shows "startExercise ex =
           Inr \<lparr>ex_id = ex_id ex, ex_name = ex_name ex, targetSets = targetSets ex,
                targetReps = targetReps ex, targetWeight = targetWeight ex,
                loggedSets = [Entry emptySet]\<rparr>"
  using assms by (simp add: startExercise_def seedLoggedSets_fallback)

subsection \<open>A \<^verbatim>\<open>map\<close> whose callback can throw\<close>

lemma map_throwing_Inr_D:
  "map_throwing f xs = Inr ys \<Longrightarrow> list_all2 (\<lambda>x y. f x = Inr y) xs ys"
proof (induction xs arbitrary: ys)
  case Nil
  then show ?case by simp
next
  case (Cons x xs)
  from Cons.prems obtain y zs where "f x = Inr y" "map_throwing f xs = Inr zs" "ys = y # zs"
    by (auto split: sum.splits)
  with Cons.IH [of zs] show ?case by simp
qed

lemma map_throwing_total:
  "(\<And>x. x \<in> set xs \<Longrightarrow> \<exists>y. f x = Inr y) \<Longrightarrow> \<exists>ys. map_throwing f xs = Inr ys"
proof (induction xs)
  case Nil
  then show ?case by simp
next
  case (Cons x xs)
  from Cons.prems obtain y where "f x = Inr y" by auto
  moreover from Cons obtain ys where "map_throwing f xs = Inr ys" by auto
  ultimately show ?case by simp
qed

lemma map_throwing_error:
  "map_throwing f xs = Inl e \<Longrightarrow> \<exists>x \<in> set xs. f x = Inl e"
proof (induction xs)
  case Nil
  then show ?case by simp
next
  case (Cons x xs)
  show ?case
  proof (cases "f x")
    case (Inl e')
    with Cons.prems show ?thesis by simp
  next
    case (Inr y)
    with Cons.prems have "map_throwing f xs = Inl e" by (simp split: sum.splits)
    with Cons.IH show ?thesis by auto
  qed
qed

subsection \<open>The new session\<close>




text \<open>
  Claim C10 at a negative \<^verbatim>\<open>targetSets\<close>. The string "-3" does not parse to a positive
  integer: \<^verbatim>\<open>parseInt\<close> gives \<open>-3\<close>, which is truthy, so \<^verbatim>\<open>|| 1\<close> keeps it and
  \<^verbatim>\<open>Array(-3)\<close> throws \<^verbatim>\<open>RangeError\<close>. \<^verbatim>\<open>handleStartWorkout\<close> fails and seeds nothing,
  where the claim promises one placeholder. (For \<^verbatim>\<open>NaN\<close> and 0 the fallback works, see
  \<open>startExercise_fallback\<close>.)
\<close>

theorem start_negative_targetSets_throws:
  "parseInt (JStr ''-3'') = Some (- 3)
   \<and> handleStartWorkout (push_day (JStr ''-3'')) initial_state = Inl RangeError"
  by code_simp

section \<open>Starting a workout while one is active\<close>

text \<open>
  Claim C1, as the code has it. \<^verbatim>\<open>handleStartWorkout\<close> never looks at the current
  session: its result from a state with an active session is its result from the same
  state without one. Its only failure is the \<^verbatim>\<open>RangeError\<close> of an exercise with an
  invalid set count, which depends on the template alone; there is no conflict error.
  On success the single session variable holds the session built from the template,
  so a session that was active is replaced by the new one, and at most one session
  exists at any time.
\<close>

theorem start_replaces_active_session:
  "handleStartWorkout tpl (st\<lparr>activeWorkout := Some aw\<rparr>) =
     handleStartWorkout tpl (st\<lparr>activeWorkout := None\<rparr>)
   \<and> (case handleStartWorkout tpl st of
         Inl e \<Rightarrow> e = RangeError \<and> map_throwing startExercise (tpl_exercises tpl) = Inl e
       | Inr st' \<Rightarrow>
           \<exists>exs. map_throwing startExercise (tpl_exercises tpl) = Inr exs
             \<and> activeWorkout st' =
                 Some \<lparr>templateId = tpl_id tpl, name = tpl_name tpl,
                       startTime = ServerTimestamp, session_bodyWeight = [],
                       session_notes = [], exercises = exs, isCompleted = False\<rparr>)"
proof (cases "map_throwing startExercise (tpl_exercises tpl)")
  case (Inl e)
  then obtain ex where "startExercise ex = Inl e" using map_throwing_error by blast
  then have "e = RangeError" by (rule startExercise_error)
  with Inl show ?thesis by (simp add: handleStartWorkout_def)
next
  case (Inr exs)
  then show ?thesis by (simp add: handleStartWorkout_def)
qed

theorem start_replaces_active_session_witness:
  "handleStartWorkout leg_day (initial_state\<lparr>activeWorkout := activeWorkout logged_state\<rparr>) =
     handleStartWorkout leg_day initial_state"
proof -
  have a: "initial_state\<lparr>activeWorkout := None\<rparr> = initial_state"
    by (simp add: initial_state_def)
  have b: "activeWorkout logged_state =
      Some (push_day_session PlainObject
              [Entry \<lparr>reps = ''10'', weight = ''135'', completed = True\<rparr>,
               Entry emptySet, Entry emptySet])"
    by (simp add: logged_state_def)
  from start_replaces_active_session [where tpl = leg_day and st = initial_state
      and aw = "push_day_session PlainObject
              [Entry \<lparr>reps = ''10'', weight = ''135'', completed = True\<rparr>,
               Entry emptySet, Entry emptySet]"]
  show ?thesis by (simp add: a b)
qed

text \<open>
  The claim as the specification states it fails: with Push Day active and one set
  logged, starting Leg Day succeeds, and the active session is then Leg Day; the Push
  Day session is gone.
\<close>

theorem start_while_active_counterexample:
  "activeWorkout logged_state \<noteq> None
   \<and> handleStartWorkout leg_day logged_state = Inr leg_day_state
   \<and> activeWorkout leg_day_state \<noteq> activeWorkout logged_state"
  by code_simp

section \<open>Logging a set\<close>

text \<open>The handler on a set that exists, called with the set's own values.\<close>

lemma handleLogSet_in_range:
  assumes "activeWorkout st = Some aw"
    and "exerciseIndex < length (exercises aw)"
    and "setIndex < length (loggedSets (exercises aw ! exerciseIndex))"
    and "loggedSets (exercises aw ! exerciseIndex) ! setIndex = Entry s"
  shows "handleLogSet exerciseIndex setIndex (reps s) (weight s) st =
           Inr (startTimer 180 (st\<lparr>activeWorkout := Some (aw\<lparr>exercises := (exercises aw)
                  [exerciseIndex := (exercises aw ! exerciseIndex)
                     \<lparr>loggedSets := (loggedSets (exercises aw ! exerciseIndex))
                        [setIndex := Entry (s\<lparr>completed := True\<rparr>)]\<rparr>]\<rparr>)\<rparr>))"
    and "logSet_onClick exerciseIndex setIndex st =
           handleLogSet exerciseIndex setIndex (reps s) (weight s) st"
proof -
  have e: "Entry \<lparr>reps = reps s, weight = weight s, completed = True\<rparr> =
      Entry (s\<lparr>completed := True\<rparr>)" by simp
  show "handleLogSet exerciseIndex setIndex (reps s) (weight s) st =
           Inr (startTimer 180 (st\<lparr>activeWorkout := Some (aw\<lparr>exercises := (exercises aw)
                  [exerciseIndex := (exercises aw ! exerciseIndex)
                     \<lparr>loggedSets := (loggedSets (exercises aw ! exerciseIndex))
                        [setIndex := Entry (s\<lparr>completed := True\<rparr>)]\<rparr>]\<rparr>)\<rparr>))"
    using assms unfolding handleLogSet_def array_set_def Let_def e by simp
  show "logSet_onClick exerciseIndex setIndex st =
           handleLogSet exerciseIndex setIndex (reps s) (weight s) st"
    using assms by (simp add: logSet_onClick_def)
qed

text \<open>
  Claim C6. Let a session be active, the exercise index and the set index be in range,
  and \<open>s\<close> be the set there. Then the "Log Set" button, which calls
  \<^verbatim>\<open>handleLogSet\<close> with the \<open>reps\<close> and \<open>weight\<close> of \<open>s\<close>, succeeds; the new session is the old
  one with only that set changed, to \<open>s\<close> with \<open>completed = true\<close>, its \<open>reps\<close> and \<open>weight\<close>
  as they were; and the rest timer is started with 180 seconds: running, not paused.
\<close>

theorem logSet_marks_completed_and_starts_timer:
  assumes "activeWorkout st = Some aw"
    and "exerciseIndex < length (exercises aw)"
    and "setIndex < length (loggedSets (exercises aw ! exerciseIndex))"
    and "loggedSets (exercises aw ! exerciseIndex) ! setIndex = Entry s"
  shows "\<exists>st' aw'.
           logSet_onClick exerciseIndex setIndex st = Inr st'
         \<and> handleLogSet exerciseIndex setIndex (reps s) (weight s) st = Inr st'
         \<and> st' = startTimer 180 (st\<lparr>activeWorkout := Some aw'\<rparr>)
         \<and> aw' = aw\<lparr>exercises := (exercises aw)
                    [exerciseIndex := (exercises aw ! exerciseIndex)
                       \<lparr>loggedSets := (loggedSets (exercises aw ! exerciseIndex))
                          [setIndex := Entry (s\<lparr>completed := True\<rparr>)]\<rparr>]\<rparr>
         \<and> loggedSets (exercises aw' ! exerciseIndex) ! setIndex =
             Entry \<lparr>reps = reps s, weight = weight s, completed = True\<rparr>
         \<and> timerSeconds st' = 180 \<and> timerActive st' \<and> \<not> timerPaused st'"
proof -
  let ?ex = "exercises aw ! exerciseIndex"
  let ?aw' = "aw\<lparr>exercises := (exercises aw)
                [exerciseIndex := ?ex\<lparr>loggedSets := (loggedSets ?ex)
                   [setIndex := Entry (s\<lparr>completed := True\<rparr>)]\<rparr>]\<rparr>"
  let ?st' = "startTimer 180 (st\<lparr>activeWorkout := Some ?aw'\<rparr>)"
  have h: "handleLogSet exerciseIndex setIndex (reps s) (weight s) st = Inr ?st'"
    using assms by (rule handleLogSet_in_range)
  have c: "logSet_onClick exerciseIndex setIndex st =
      handleLogSet exerciseIndex setIndex (reps s) (weight s) st"
    using assms by (rule handleLogSet_in_range)
  have "loggedSets (exercises ?aw' ! exerciseIndex) ! setIndex =
      Entry \<lparr>reps = reps s, weight = weight s, completed = True\<rparr>"
    using assms by simp
  moreover have "timerSeconds ?st' = 180 \<and> timerActive ?st' \<and> \<not> timerPaused ?st'"
    by (simp add: startTimer_def)
  ultimately show ?thesis using h c by (intro exI [of _ ?st'] exI [of _ ?aw']) simp
qed

text \<open>
  The specification's scenario: with 10 reps and 135 lbs in the first set of Bench,
  logging set \<open>(0, 0)\<close> makes it \<^verbatim>\<open>{reps: "10", weight: "135", completed: true}\<close> and
  starts the timer at 180.
\<close>

theorem logSet_marks_completed_and_starts_timer_witness:
  "logSet_onClick 0 0 typed_state = Inr logged_state
   \<and> activeWorkout logged_state =
       Some (push_day_session PlainObject
               [Entry \<lparr>reps = ''10'', weight = ''135'', completed = True\<rparr>,
                Entry emptySet, Entry emptySet])
   \<and> timerSeconds logged_state = 180 \<and> timerActive logged_state
   \<and> \<not> timerPaused logged_state"
proof -
  let ?aw = "push_day_session PlainObject
               [Entry \<lparr>reps = ''10'', weight = ''135'', completed = False\<rparr>,
                Entry emptySet, Entry emptySet]"
  have 1: "activeWorkout typed_state = Some ?aw" by (simp add: typed_state_def)
  have 2: "0 < length (exercises ?aw)" by (simp add: push_day_session_def)
  have 3: "0 < length (loggedSets (exercises ?aw ! 0))" by (simp add: push_day_session_def)
  have 4: "loggedSets (exercises ?aw ! 0) ! 0 =
      Entry \<lparr>reps = ''10'', weight = ''135'', completed = False\<rparr>"
    by (simp add: push_day_session_def)
  from logSet_marks_completed_and_starts_timer [OF 1 2 3 4]
  have "logSet_onClick 0 0 typed_state =
      Inr (startTimer 180 (typed_state\<lparr>activeWorkout := Some (?aw\<lparr>exercises := (exercises ?aw)
        [0 := (exercises ?aw ! 0)\<lparr>loggedSets := (loggedSets (exercises ?aw ! 0))
           [0 := Entry (\<lparr>reps = ''10'', weight = ''135'', completed = False\<rparr>
                    \<lparr>completed := True\<rparr>)]\<rparr>]\<rparr>)\<rparr>))"
    by simp
  then have "logSet_onClick 0 0 typed_state = Inr logged_state"
    by (simp add: typed_state_def logged_state_def push_day_session_def startTimer_def)
  then show ?thesis by (simp add: logged_state_def)
qed

text \<open>The inputs of the scenario: typing the two values into the first set.\<close>

lemma typing_scenario:
  "(case handleSetInputChange 0 0 Reps ''10'' started_state of
      Inl e \<Rightarrow> Inl e
    | Inr st1 \<Rightarrow> handleSetInputChange 0 0 Weight ''135'' st1) = Inr typed_state"
  by code_simp

section \<open>Indices out of range\<close>

lemma json_copy_lengths:
  "length (exercises (json_copy aw)) = length (exercises aw)"
  "i < length (exercises aw) \<Longrightarrow>
     length (loggedSets (exercises (json_copy aw) ! i)) = length (loggedSets (exercises aw ! i))"
  by (simp_all add: json_copy_def)

text \<open>
  Claim C7, as the code has it. The handlers check no index, and the code has no index
  error. With a session active: \<^verbatim>\<open>handleSetInputChange\<close> with an exercise index or a
  set index out of range throws \<^verbatim>\<open>TypeError\<close>, and so does \<^verbatim>\<open>handleLogSet\<close> with an
  exercise index out of range; the update is not applied, so no changed session
  results.
\<close>

theorem set_logger_out_of_range_TypeError:
  assumes "activeWorkout st = Some aw"
    and "length (exercises aw) \<le> exerciseIndex
         \<or> (exerciseIndex < length (exercises aw)
             \<and> length (loggedSets (exercises aw ! exerciseIndex)) \<le> setIndex)"
  shows "handleSetInputChange exerciseIndex setIndex field v st = Inl TypeError
         \<and> (length (exercises aw) \<le> exerciseIndex \<longrightarrow>
              handleLogSet exerciseIndex setIndex reps_arg weight_arg st = Inl TypeError)"
proof (intro conjI impI)
  from assms(2) show "handleSetInputChange exerciseIndex setIndex field v st = Inl TypeError"
  proof
    assume "length (exercises aw) \<le> exerciseIndex"
    with assms(1) show ?thesis
      by (simp add: handleSetInputChange_def Let_def json_copy_lengths)
  next
    assume "exerciseIndex < length (exercises aw)
        \<and> length (loggedSets (exercises aw ! exerciseIndex)) \<le> setIndex"
    with assms(1) show ?thesis
      by (simp add: handleSetInputChange_def Let_def json_copy_lengths)
  qed
next
  assume "length (exercises aw) \<le> exerciseIndex"
  with assms(1)
  show "handleLogSet exerciseIndex setIndex reps_arg weight_arg st = Inl TypeError"
    by (simp add: handleLogSet_def)
qed

theorem set_logger_out_of_range_TypeError_witness:
  "handleSetInputChange 1 0 Reps ''5'' started_state = Inl TypeError
   \<and> handleLogSet 1 0 ''5'' ''100'' started_state = Inl TypeError
   \<and> handleSetInputChange 0 3 Weight ''100'' started_state = Inl TypeError"
proof -
  let ?aw = "push_day_session ServerTimestamp [Entry emptySet, Entry emptySet, Entry emptySet]"
  have a: "activeWorkout started_state = Some ?aw" by (simp add: started_state_def)
  have b: "length (exercises ?aw) \<le> 1
         \<or> (1 < length (exercises ?aw) \<and> length (loggedSets (exercises ?aw ! 1)) \<le> 0)"
    by (simp add: push_day_session_def)
  have c: "length (exercises ?aw) \<le> 0
         \<or> (0 < length (exercises ?aw) \<and> length (loggedSets (exercises ?aw ! 0)) \<le> 3)"
    by (simp add: push_day_session_def)
  have d: "length (exercises ?aw) \<le> 1" by (simp add: push_day_session_def)
  from set_logger_out_of_range_TypeError [OF a b, of Reps "''5''" "''5''" "''100''"] d
    set_logger_out_of_range_TypeError [OF a c, of Weight "''100''" "''5''" "''100''"]
  show ?thesis by simp
qed

text \<open>
  The claim as the specification states it fails: the exercise of \<open>started_state\<close> has
  three sets, at indices 0 to 2, and \<^verbatim>\<open>handleLogSet(0, 3, "8", "135")\<close> does not fail; it
  stores a completed set at index 3, so the session has changed (and the timer
  runs).
\<close>

theorem logSet_past_the_end_counterexample:
  "activeWorkout started_state =
     Some (push_day_session ServerTimestamp [Entry emptySet, Entry emptySet, Entry emptySet])
   \<and> handleLogSet 0 3 ''8'' ''135'' started_state = Inr overrun_state
   \<and> activeWorkout overrun_state =
       Some (push_day_session ServerTimestamp
               [Entry emptySet, Entry emptySet, Entry emptySet,
                Entry \<lparr>reps = ''8'', weight = ''135'', completed = True\<rparr>])
   \<and> overrun_state \<noteq> started_state"
  by (simp add: handleLogSet_def started_state_def overrun_state_def push_day_session_def
      array_set_def startTimer_def)

section \<open>Finishing a workout\<close>

lemma filter_completed_Inr_iff:
  "filter_completed xs = Inr ys \<longleftrightarrow> Null \<notin> set xs \<and> ys = filter is_completed_entry xs"
proof (induction xs arbitrary: ys rule: filter_completed.induct)
  case 1
  show ?case by auto
next
  case (2 xs)
  then show ?case by simp
next
  case (3 xs)
  show ?case by simp
next
  case (4 s xs)
  show ?case
  proof (cases "filter_completed xs")
    case (Inl e)
    with 4 [of "filter is_completed_entry xs"] have "Null \<in> set xs" by simp
    with Inl show ?thesis by simp
  next
    case (Inr zs)
    with 4 [of zs] have "Null \<notin> set xs" "zs = filter is_completed_entry xs" by simp_all
    with Inr show ?thesis by auto
  qed
qed

lemma finishExercise_Inr_iff:
  "finishExercise ex = Inr lx \<longleftrightarrow>
     Null \<notin> set (loggedSets ex)
     \<and> lx = ex\<lparr>loggedSets := filter is_completed_entry (loggedSets ex)\<rparr>"
proof (cases "filter_completed (loggedSets ex)")
  case (Inl e)
  then have "Null \<in> set (loggedSets ex)"
    using filter_completed_Inr_iff [of "loggedSets ex" "filter is_completed_entry (loggedSets ex)"]
    by simp
  with Inl show ?thesis by (simp add: finishExercise_def)
next
  case (Inr zs)
  then have "Null \<notin> set (loggedSets ex)" "zs = filter is_completed_entry (loggedSets ex)"
    using filter_completed_Inr_iff [of "loggedSets ex" zs] by simp_all
  with Inr show ?thesis by (auto simp: finishExercise_def)
qed

lemma buildWorkoutLog_Inr_iff:
  "buildWorkoutLog st aw = Inr workoutLog \<longleftrightarrow>
     (\<exists>exs. map_throwing finishExercise (exercises aw) = Inr exs
        \<and> workoutLog =
            \<lparr>templateId = templateId aw, name = name aw, startTime = startTime aw,
             session_bodyWeight = js_or (js_or (bodyWeight st) (session_bodyWeight aw)) [],
             session_notes = js_or (js_or (workoutNotes st) (session_notes aw)) [],
             exercises = exs, isCompleted = True, endTime = ServerTimestamp\<rparr>)"
  by (cases "map_throwing finishExercise (exercises aw)")
     (auto simp: buildWorkoutLog_def Let_def)

text \<open>A session without a \<^verbatim>\<open>null\<close> element always yields a log.\<close>

lemma buildWorkoutLog_total:
  assumes "\<forall>ex \<in> set (exercises aw). Null \<notin> set (loggedSets ex)"
  shows "\<exists>workoutLog. buildWorkoutLog st aw = Inr workoutLog"
proof -
  have "\<exists>lx. finishExercise ex = Inr lx" if "ex \<in> set (exercises aw)" for ex
    using assms that by (simp add: finishExercise_Inr_iff)
  then obtain exs where "map_throwing finishExercise (exercises aw) = Inr exs"
    using map_throwing_total [of "exercises aw" finishExercise] by blast
  then show ?thesis by (simp add: buildWorkoutLog_Inr_iff)
qed

lemma buildWorkoutLog_exercises:
  assumes "buildWorkoutLog st aw = Inr workoutLog"
  shows "list_all2
           (\<lambda>ex lx. lx = ex\<lparr>loggedSets := filter is_completed_entry (loggedSets ex)\<rparr>)
           (exercises aw) (exercises workoutLog)"
proof -
  from assms obtain exs where exs: "map_throwing finishExercise (exercises aw) = Inr exs"
    and "exercises workoutLog = exs"
    by (auto simp: buildWorkoutLog_Inr_iff)
  from exs have "list_all2 (\<lambda>ex lx. finishExercise ex = Inr lx) (exercises aw) exs"
    by (rule map_throwing_Inr_D)
  then have "list_all2
      (\<lambda>ex lx. lx = ex\<lparr>loggedSets := filter is_completed_entry (loggedSets ex)\<rparr>)
      (exercises aw) exs"
    by (rule list_all2_mono) (simp add: finishExercise_Inr_iff)
  with \<open>exercises workoutLog = exs\<close> show ?thesis by simp
qed

text \<open>A stored document is the log built from the active session.\<close>

lemma handleFinishWorkout_stored:
  assumes "handleFinishWorkout addDoc st = Inr r" and "stored r = Some workoutLog"
  shows "\<exists>aw ref. activeWorkout st = Some aw \<and> buildWorkoutLog st aw = Inr workoutLog
           \<and> addDoc workoutLog = Resolved ref"
  using assms
  by (auto simp: handleFinishWorkout_def
      split: option.splits if_splits sum.splits addDoc_result.splits)

text \<open>With the database, the user and the session present, the two ways the call ends.\<close>

lemma handleFinishWorkout_ready:
  assumes "db st" "userId st = Some uid" "uid \<noteq> []" "activeWorkout st = Some aw"
    and "buildWorkoutLog st aw = Inr workoutLog"
  shows "handleFinishWorkout addDoc st =
     (case addDoc workoutLog of
        Resolved ref \<Rightarrow>
          Inr \<lparr>new_state =
                 st\<lparr>activeWorkout := None, currentScreen := Home, timerActive := False,
                    timerPaused := False, timerSeconds := 180, bodyWeight := [],
                    workoutNotes := [], showBodyWeightInput := False\<rparr>,
               stored = Some workoutLog, alerted = None\<rparr>
      | Rejected \<Rightarrow>
          Inr \<lparr>new_state = st, stored = None,
               alerted = Some ''Failed to save workout log.''\<rparr>)"
  using assms
  by (simp add: handleFinishWorkout_def stopTimer_def split: addDoc_result.splits)

lemma finish_scenario:
  "handleFinishWorkout addDoc_accepts finishing_state =
     Inr \<lparr>new_state = initial_state, stored = Some push_day_log, alerted = None\<rparr>"
  by code_simp

lemma finishing_state_log:
  "buildWorkoutLog finishing_state
     (push_day_session PlainObject
        [Entry \<lparr>reps = ''10'', weight = ''135'', completed = True\<rparr>,
         Entry emptySet, Entry emptySet]) = Inr push_day_log"
  by code_simp

text \<open>
  Claim C2. Whenever \<^verbatim>\<open>handleFinishWorkout\<close> stores a log, a session was active, the log
  has the session's exercises in order, each with its \<^verbatim>\<open>loggedSets\<close> replaced by those
  of its elements that are sets with \<open>completed = true\<close>, in order, and every element of
  every \<^verbatim>\<open>loggedSets\<close> of the log is a completed set. And a log is produced: with the
  database and the user present, a session without \<^verbatim>\<open>null\<close> elements yields a log,
  which is stored when the store accepts it.
\<close>

theorem finish_log_holds_completed_sets_only:
  "(handleFinishWorkout addDoc st = Inr r \<and> stored r = Some workoutLog \<longrightarrow>
      (\<exists>aw. activeWorkout st = Some aw
         \<and> list_all2
              (\<lambda>ex lx. lx = ex\<lparr>loggedSets := filter is_completed_entry (loggedSets ex)\<rparr>)
              (exercises aw) (exercises workoutLog))
      \<and> (\<forall>lx \<in> set (exercises workoutLog). \<forall>x \<in> set (loggedSets lx).
            \<exists>s. x = Entry s \<and> completed s))
   \<and> (db st \<and> userId st = Some uid \<and> uid \<noteq> [] \<and> activeWorkout st = Some aw'
        \<and> (\<forall>ex \<in> set (exercises aw'). Null \<notin> set (loggedSets ex)) \<longrightarrow>
      (\<exists>w. buildWorkoutLog st aw' = Inr w
         \<and> (\<forall>ref. addDoc w = Resolved ref \<longrightarrow>
               (\<exists>r'. handleFinishWorkout addDoc st = Inr r' \<and> stored r' = Some w))))"
proof (intro conjI impI)
  assume a: "handleFinishWorkout addDoc st = Inr r \<and> stored r = Some workoutLog"
  then obtain aw where aw: "activeWorkout st = Some aw"
    and b: "buildWorkoutLog st aw = Inr workoutLog"
    using handleFinishWorkout_stored [of addDoc st r workoutLog] by blast
  from b have l: "list_all2
      (\<lambda>ex lx. lx = ex\<lparr>loggedSets := filter is_completed_entry (loggedSets ex)\<rparr>)
      (exercises aw) (exercises workoutLog)"
    by (rule buildWorkoutLog_exercises)
  with aw show "\<exists>aw. activeWorkout st = Some aw
         \<and> list_all2
              (\<lambda>ex lx. lx = ex\<lparr>loggedSets := filter is_completed_entry (loggedSets ex)\<rparr>)
              (exercises aw) (exercises workoutLog)"
    by blast
  show "\<forall>lx \<in> set (exercises workoutLog). \<forall>x \<in> set (loggedSets lx).
            \<exists>s. x = Entry s \<and> completed s"
  proof (intro ballI)
    fix lx x
    assume lx: "lx \<in> set (exercises workoutLog)" and x: "x \<in> set (loggedSets lx)"
    from l lx obtain ex
      where "lx = ex\<lparr>loggedSets := filter is_completed_entry (loggedSets ex)\<rparr>"
      by (auto simp: list_all2_conv_all_nth in_set_conv_nth)
    with x have "is_completed_entry x" by simp
    then show "\<exists>s. x = Entry s \<and> completed s" by (cases x) simp_all
  qed
next
  assume a: "db st \<and> userId st = Some uid \<and> uid \<noteq> [] \<and> activeWorkout st = Some aw'
        \<and> (\<forall>ex \<in> set (exercises aw'). Null \<notin> set (loggedSets ex))"
  then obtain w where w: "buildWorkoutLog st aw' = Inr w"
    using buildWorkoutLog_total [of aw' st] by blast
  have "\<exists>r'. handleFinishWorkout addDoc st = Inr r' \<and> stored r' = Some w"
    if "addDoc w = Resolved ref" for ref
    using a w that handleFinishWorkout_ready [of st uid aw' w addDoc] by simp
  with w show "\<exists>w. buildWorkoutLog st aw' = Inr w
         \<and> (\<forall>ref. addDoc w = Resolved ref \<longrightarrow>
               (\<exists>r'. handleFinishWorkout addDoc st = Inr r' \<and> stored r' = Some w))"
    by blast
qed

text \<open>
  The specification's scenario: finishing, with body weight 170 and the note "felt
  strong", a session whose only exercise has one completed and two uncompleted sets
  stores a log whose exercise has one set.
\<close>

theorem finish_log_holds_completed_sets_only_witness:
  "handleFinishWorkout addDoc_accepts finishing_state =
     Inr \<lparr>new_state = initial_state, stored = Some push_day_log, alerted = None\<rparr>
   \<and> list_all2
        (\<lambda>ex lx. lx = ex\<lparr>loggedSets := filter is_completed_entry (loggedSets ex)\<rparr>)
        (exercises (push_day_session PlainObject
           [Entry \<lparr>reps = ''10'', weight = ''135'', completed = True\<rparr>,
            Entry emptySet, Entry emptySet]))
        (exercises push_day_log)
   \<and> map (length \<circ> loggedSets) (exercises push_day_log) = [1]"
proof -
  have s: "activeWorkout finishing_state =
      Some (push_day_session PlainObject
           [Entry \<lparr>reps = ''10'', weight = ''135'', completed = True\<rparr>,
            Entry emptySet, Entry emptySet])"
    by (simp add: finishing_state_def logged_state_def)
  have "stored \<lparr>new_state = initial_state, stored = Some push_day_log, alerted = None\<rparr>
      = Some push_day_log" by simp
  with finish_scenario s
    finish_log_holds_completed_sets_only [of addDoc_accepts finishing_state
      "\<lparr>new_state = initial_state, stored = Some push_day_log, alerted = None\<rparr>" push_day_log]
  have "list_all2
        (\<lambda>ex lx. lx = ex\<lparr>loggedSets := filter is_completed_entry (loggedSets ex)\<rparr>)
        (exercises (push_day_session PlainObject
           [Entry \<lparr>reps = ''10'', weight = ''135'', completed = True\<rparr>,
            Entry emptySet, Entry emptySet]))
        (exercises push_day_log)"
    by simp
  moreover from this have "map (length \<circ> loggedSets) (exercises push_day_log) = [1]"
    by (auto simp: push_day_session_def list_all2_Cons1 emptySet_def)
  ultimately show ?thesis using finish_scenario by simp
qed

text \<open>
  Claim C3, as the code has it. Let the database, the user and a session be present,
  and let the store reject the log that \<^verbatim>\<open>handleFinishWorkout\<close> built. Then the call
  returns normally: the state, and with it the active session, is exactly what it was,
  nothing is stored, and the failure is reported by the alert "Failed to save workout
  log." (and on the console). The rejection is caught inside the handler; no error
  reaches the caller.
\<close>

theorem failed_append_keeps_session:
  assumes "db st" and "userId st = Some uid" and "uid \<noteq> []"
    and "activeWorkout st = Some aw"
    and "buildWorkoutLog st aw = Inr workoutLog"
    and "addDoc workoutLog = Rejected"
  shows "handleFinishWorkout addDoc st =
           Inr \<lparr>new_state = st, stored = None,
                alerted = Some ''Failed to save workout log.''\<rparr>"
  using assms handleFinishWorkout_ready [of st uid aw workoutLog addDoc] by simp

theorem failed_append_keeps_session_witness:
  "handleFinishWorkout addDoc_rejects finishing_state =
     Inr \<lparr>new_state = finishing_state, stored = None,
          alerted = Some ''Failed to save workout log.''\<rparr>"
proof (rule failed_append_keeps_session)
  show "db finishing_state" by (simp add: finishing_state_def logged_state_def)
  show "userId finishing_state = Some ''u1''" by (simp add: finishing_state_def logged_state_def)
  show "''u1'' \<noteq> []" by simp
  show "activeWorkout finishing_state =
      Some (push_day_session PlainObject
        [Entry \<lparr>reps = ''10'', weight = ''135'', completed = True\<rparr>,
         Entry emptySet, Entry emptySet])"
    by (simp add: finishing_state_def logged_state_def)
  show "buildWorkoutLog finishing_state
     (push_day_session PlainObject
        [Entry \<lparr>reps = ''10'', weight = ''135'', completed = True\<rparr>,
         Entry emptySet, Entry emptySet]) = Inr push_day_log"
    by (rule finishing_state_log)
  show "addDoc_rejects push_day_log = Rejected" by (simp add: addDoc_rejects_def)
qed

text \<open>
  The claim as the specification states it fails in its last part: when the store
  rejects the log, the result of \<^verbatim>\<open>handleFinishWorkout\<close> is not an error but a normal
  return, with the alert.
\<close>

theorem failed_append_returns_normally_counterexample:
  "\<not> isl (handleFinishWorkout addDoc_rejects finishing_state)
   \<and> handleFinishWorkout addDoc_rejects finishing_state =
       Inr \<lparr>new_state = finishing_state, stored = None,
            alerted = Some ''Failed to save workout log.''\<rparr>"
  by code_simp

section \<open>The sessions the screens can produce\<close>

text \<open>
  Holes and \<^verbatim>\<open>null\<close> elements come only from a write beyond the end of a set list, which
  no button performs: in every state the screens can produce, each element of each
  \<^verbatim>\<open>loggedSets\<close> is a set object.
\<close>

lemma list_all_update:
  "list_all P xs \<Longrightarrow> P x \<Longrightarrow> list_all P (xs[i := x])"
  using set_update_subset_insert [of xs i x] by (auto simp: list_all_iff)

lemma all_entries_Some:
  "activeWorkout st = Some aw \<Longrightarrow>
   all_entries st \<longleftrightarrow>
     list_all (\<lambda>ex. list_all (\<lambda>x. x \<noteq> Hole \<and> x \<noteq> Null) (loggedSets ex)) (exercises aw)"
  by (simp add: all_entries_def)

lemma all_entries_slot:
  assumes "all_entries st" and "activeWorkout st = Some aw"
    and "exerciseIndex < length (exercises aw)"
    and "setIndex < length (loggedSets (exercises aw ! exerciseIndex))"
  shows "\<exists>s. loggedSets (exercises aw ! exerciseIndex) ! setIndex = Entry s"
proof -
  from assms have "list_all (\<lambda>x. x \<noteq> Hole \<and> x \<noteq> Null) (loggedSets (exercises aw ! exerciseIndex))"
    by (simp add: all_entries_Some list_all_length)
  with assms(4) have "loggedSets (exercises aw ! exerciseIndex) ! setIndex \<noteq> Hole"
    and "loggedSets (exercises aw ! exerciseIndex) ! setIndex \<noteq> Null"
    by (simp_all add: list_all_length)
  then show ?thesis by (cases "loggedSets (exercises aw ! exerciseIndex) ! setIndex") simp_all
qed

lemma all_entries_no_Null:
  assumes "all_entries st" and "activeWorkout st = Some aw"
  shows "\<forall>ex \<in> set (exercises aw). Null \<notin> set (loggedSets ex)"
  using assms by (auto simp: all_entries_Some list_all_iff)

lemma seedLoggedSets_entries:
  "seedLoggedSets v = Inr xs \<Longrightarrow> list_all (\<lambda>x. x \<noteq> Hole \<and> x \<noteq> Null) xs"
  by (auto simp: seedLoggedSets_cases list_all_iff split: option.splits if_splits)

lemma startExercise_entries:
  "startExercise ex = Inr sx \<Longrightarrow> list_all (\<lambda>x. x \<noteq> Hole \<and> x \<noteq> Null) (loggedSets sx)"
  by (cases "seedLoggedSets (targetSets ex)")
     (auto simp: startExercise_def dest: seedLoggedSets_entries)

lemma handleStartWorkout_all_entries:
  assumes "handleStartWorkout tpl st = Inr st'"
  shows "all_entries st'"
proof -
  from assms obtain exs where exs: "map_throwing startExercise (tpl_exercises tpl) = Inr exs"
    and st': "activeWorkout st' =
      Some \<lparr>templateId = tpl_id tpl, name = tpl_name tpl, startTime = ServerTimestamp,
            session_bodyWeight = [], session_notes = [], exercises = exs, isCompleted = False\<rparr>"
    by (cases "map_throwing startExercise (tpl_exercises tpl)")
       (auto simp: handleStartWorkout_def)
  from exs have "list_all2 (\<lambda>x y. startExercise x = Inr y) (tpl_exercises tpl) exs"
    by (rule map_throwing_Inr_D)
  then have "\<exists>x. startExercise x = Inr y" if "y \<in> set exs" for y
    using that by (auto simp: list_all2_conv_all_nth in_set_conv_nth)
  then have "list_all (\<lambda>x. x \<noteq> Hole \<and> x \<noteq> Null) (loggedSets y)" if "y \<in> set exs" for y
    using that startExercise_entries by blast
  then have "list_all (\<lambda>ex. list_all (\<lambda>x. x \<noteq> Hole \<and> x \<noteq> Null) (loggedSets ex)) exs"
    by (simp add: list_all_iff)
  with st' show ?thesis by (simp add: all_entries_def)
qed

lemma json_copy_entries:
  assumes "list_all (\<lambda>ex. list_all (\<lambda>x. x \<noteq> Hole \<and> x \<noteq> Null) (loggedSets ex)) (exercises aw)"
  shows "exercises (json_copy aw) = exercises aw"
proof -
  have "map json_slot xs = xs" if "list_all (\<lambda>x. x \<noteq> Hole \<and> x \<noteq> Null) xs" for xs
    using that by (induction xs) (auto simp: json_slot_def split: slot.splits)
  with assms have "map (\<lambda>ex. ex\<lparr>loggedSets := map json_slot (loggedSets ex)\<rparr>) (exercises aw)
      = map (\<lambda>ex. ex) (exercises aw)"
    by (intro map_cong) (auto simp: list_all_iff)
  then show ?thesis by (simp add: json_copy_def)
qed

lemma handleSetInputChange_all_entries:
  assumes "all_entries st" and "handleSetInputChange exerciseIndex setIndex field v st = Inr st'"
  shows "all_entries st'"
proof -
  from assms(2) obtain prev where prev: "activeWorkout st = Some prev"
    by (cases "activeWorkout st") (simp_all add: handleSetInputChange_def)
  with assms(1) have d: "list_all (\<lambda>ex. list_all (\<lambda>x. x \<noteq> Hole \<and> x \<noteq> Null) (loggedSets ex))
      (exercises prev)"
    by (simp add: all_entries_Some)
  then have c: "exercises (json_copy prev) = exercises prev" by (rule json_copy_entries)
  let ?ex = "exercises prev ! exerciseIndex"
  from assms(2) prev c obtain s where
    i: "exerciseIndex < length (exercises prev)" and j: "setIndex < length (loggedSets ?ex)"
    and st': "activeWorkout st' = Some ((json_copy prev)\<lparr>exercises := (exercises prev)
        [exerciseIndex := ?ex\<lparr>loggedSets := (loggedSets ?ex)
           [setIndex := Entry (assign_field field v s)]\<rparr>]\<rparr>)"
    by (auto simp: handleSetInputChange_def Let_def split: if_splits slot.splits)
  from d i have "list_all (\<lambda>x. x \<noteq> Hole \<and> x \<noteq> Null) (loggedSets ?ex)"
    by (simp add: list_all_length)
  then have "list_all (\<lambda>x. x \<noteq> Hole \<and> x \<noteq> Null)
      ((loggedSets ?ex)[setIndex := Entry (assign_field field v s)])"
    by (rule list_all_update) simp
  with d have "list_all (\<lambda>ex. list_all (\<lambda>x. x \<noteq> Hole \<and> x \<noteq> Null) (loggedSets ex))
      ((exercises prev)[exerciseIndex := ?ex\<lparr>loggedSets := (loggedSets ?ex)
           [setIndex := Entry (assign_field field v s)]\<rparr>])"
    by (intro list_all_update) simp_all
  with st' show ?thesis by (simp add: all_entries_def)
qed

lemma logSet_onClick_all_entries:
  assumes "all_entries st" and "logSet_onClick exerciseIndex setIndex st = Inr st'"
  shows "all_entries st'"
proof -
  from assms(2) obtain aw where aw: "activeWorkout st = Some aw"
    by (cases "activeWorkout st") (simp_all add: logSet_onClick_def)
  with assms(1) have d: "list_all (\<lambda>ex. list_all (\<lambda>x. x \<noteq> Hole \<and> x \<noteq> Null) (loggedSets ex))
      (exercises aw)"
    by (simp add: all_entries_Some)
  let ?ex = "exercises aw ! exerciseIndex"
  from assms(2) aw obtain s where
    i: "exerciseIndex < length (exercises aw)" and j: "setIndex < length (loggedSets ?ex)"
    and s: "loggedSets ?ex ! setIndex = Entry s"
    by (auto simp: logSet_onClick_def split: if_splits slot.splits)
  from handleLogSet_in_range [OF aw i j s] assms(2)
  have st': "activeWorkout st' = Some (aw\<lparr>exercises := (exercises aw)
        [exerciseIndex := ?ex\<lparr>loggedSets := (loggedSets ?ex)
           [setIndex := Entry (s\<lparr>completed := True\<rparr>)]\<rparr>]\<rparr>)"
    by (auto simp: startTimer_def)
  from d i have "list_all (\<lambda>x. x \<noteq> Hole \<and> x \<noteq> Null) (loggedSets ?ex)"
    by (simp add: list_all_length)
  then have "list_all (\<lambda>x. x \<noteq> Hole \<and> x \<noteq> Null)
      ((loggedSets ?ex)[setIndex := Entry (s\<lparr>completed := True\<rparr>)])"
    by (rule list_all_update) simp
  with d have "list_all (\<lambda>ex. list_all (\<lambda>x. x \<noteq> Hole \<and> x \<noteq> Null) (loggedSets ex))
      ((exercises aw)[exerciseIndex := ?ex\<lparr>loggedSets := (loggedSets ?ex)
           [setIndex := Entry (s\<lparr>completed := True\<rparr>)]\<rparr>])"
    by (intro list_all_update) simp_all
  with st' show ?thesis by (simp add: all_entries_def)
qed

lemma handleAddSetToExercise_all_entries:
  assumes "all_entries st" and "handleAddSetToExercise exerciseIndex st = Inr st'"
  shows "all_entries st'"
proof -
  from assms(2) obtain prev where prev: "activeWorkout st = Some prev"
    by (cases "activeWorkout st") (simp_all add: handleAddSetToExercise_def)
  with assms(1) have d: "list_all (\<lambda>ex. list_all (\<lambda>x. x \<noteq> Hole \<and> x \<noteq> Null) (loggedSets ex))
      (exercises prev)"
    by (simp add: all_entries_Some)
  let ?ex = "exercises prev ! exerciseIndex"
  from assms(2) prev have
    i: "exerciseIndex < length (exercises prev)"
    and st': "activeWorkout st' = Some (prev\<lparr>exercises := (exercises prev)
        [exerciseIndex := ?ex\<lparr>loggedSets := loggedSets ?ex @ [Entry emptySet]\<rparr>]\<rparr>)"
    by (auto simp: handleAddSetToExercise_def Let_def split: if_splits)
  from d i have "list_all (\<lambda>x. x \<noteq> Hole \<and> x \<noteq> Null) (loggedSets ?ex @ [Entry emptySet])"
    by (simp add: list_all_length nth_append)
  with d have "list_all (\<lambda>ex. list_all (\<lambda>x. x \<noteq> Hole \<and> x \<noteq> Null) (loggedSets ex))
      ((exercises prev)[exerciseIndex := ?ex\<lparr>loggedSets := loggedSets ?ex @ [Entry emptySet]\<rparr>])"
    by (intro list_all_update) simp_all
  with st' show ?thesis by (simp add: all_entries_def)
qed

lemma handleFinishWorkout_all_entries:
  assumes "all_entries st" and "handleFinishWorkout addDoc st = Inr r"
  shows "all_entries (new_state r)"
  using assms
  by (auto simp: handleFinishWorkout_def all_entries_def stopTimer_def
      split: option.splits if_splits sum.splits addDoc_result.splits)

lemma ui_reachable_all_entries: "ui_reachable st \<Longrightarrow> all_entries st"
proof (induction rule: ui_reachable.induct)
  case (no_session st)
  then show ?case by (simp add: all_entries_def)
next
  case (same_session st st')
  then show ?case by (simp add: all_entries_def)
next
  case (start_workout st tpl st')
  then show ?case by (simp add: handleStartWorkout_all_entries)
next
  case (set_input st i j field v st')
  then show ?case using handleSetInputChange_all_entries by blast
next
  case (log_set st i j st')
  then show ?case using logSet_onClick_all_entries by blast
next
  case (add_set st i st')
  then show ?case using handleAddSetToExercise_all_entries by blast
next
  case (finish_workout st addDoc r)
  then show ?case using handleFinishWorkout_all_entries by blast
qed

text \<open>
  So in such a state every index in range holds a set, and finishing never meets a
  \<^verbatim>\<open>null\<close>.
\<close>

lemma ui_reachable_slot:
  assumes "ui_reachable st" and "activeWorkout st = Some aw"
    and "exerciseIndex < length (exercises aw)"
    and "setIndex < length (loggedSets (exercises aw ! exerciseIndex))"
  shows "\<exists>s. loggedSets (exercises aw ! exerciseIndex) ! setIndex = Entry s"
  using assms ui_reachable_all_entries all_entries_slot by blast

lemma ui_reachable_no_Null:
  assumes "ui_reachable st" and "activeWorkout st = Some aw"
  shows "\<forall>ex \<in> set (exercises aw). Null \<notin> set (loggedSets ex)"
  using assms ui_reachable_all_entries all_entries_no_Null by blast

end
